theory Spec2Isabelle
  imports Complex_Main "HOL-Library.Sublist" "HOL-Library.Char_ord" "HOL-Library.List_Lexorder"
begin

section \<open>Domain types (types.ts)\<close>

text \<open>
  A JavaScript \<open>number\<close> that holds a price, a quantity or an amount is modelled as a
  rational: every finite double is one, and \<open>Number.isInteger\<close> becomes a test on the
  rational. Rounding and overflow of doubles are not modelled. Order numbers come out of
  an SQLite INTEGER column and are modelled as \<open>int\<close>. Timestamps and uuids are strings
  handed in by the caller of each operation.
\<close>

datatype PaymentMethod = Card | Swish

datatype OrderStatus = Pending | Confirmed | Ready

datatype PaymentSessionStatus = Created | Processing | Succeeded | Failed

record OrderLine =
  ol_menuItemId :: string
  ol_name :: string
  ol_quantity :: rat
  priceAtOrder :: rat

record PaymentSession =
  ps_id :: string
  ps_orderId :: string
  ps_method :: PaymentMethod
  ps_amount :: rat
  ps_status :: PaymentSessionStatus
  externalReference :: string
  ps_createdAt :: string
  ps_updatedAt :: string

record Order =
  o_id :: string
  orderNumber :: int
  lines :: "OrderLine list"
  totalPrice :: rat
  o_paymentMethod :: PaymentMethod
  o_status :: OrderStatus
  paymentSessionId :: string
  receiptSent :: bool
  o_telegramUserId :: string
  o_storeId :: string
  o_createdAt :: string

record TelegramReceipt =
  rc_orderId :: string
  rc_sent :: bool
  rc_sentAt :: "string option"

record Store =
  st_id :: string
  st_name :: string
  st_city :: string
  latitude :: rat
  longitude :: rat

record UserContextRow =
  uc_telegramUserId :: string
  uc_storeId :: "string option"
  notificationsEnabled :: bool
  uc_createdAt :: string
  uc_updatedAt :: string

record RequestItem =
  ri_menuItemId :: string
  ri_name :: string
  ri_quantity :: rat
  ri_price :: rat

record CreateOrderRequest =
  items :: "RequestItem list"
  rq_paymentMethod :: PaymentMethod
  rq_telegramUserId :: string
  rq_storeId :: string

record CreateOrderResponse =
  rs_orderId :: string
  rs_orderNumber :: int
  rs_status :: OrderStatus
  rs_paymentSessionId :: string
  amount :: rat
  rs_clientSecret :: "string option"
  rs_checkoutUrl :: "string option"
  rs_swishUrl :: "string option"

section \<open>The menu (data/menu.ts)\<close>

record ServerMenuItem =
  mi_id :: string
  mi_name :: string
  mi_price :: rat
  categoryId :: string

definition serverMenuItems :: "ServerMenuItem list" where
  "serverMenuItems =
    [\<lparr>mi_id = ''choklad_glass'', mi_name = ''Mjukglass med chokladtomte'', mi_price = 12, categoryId = ''nytt''\<rparr>,
     \<lparr>mi_id = ''hotdog_classic'', mi_name = ''Kokt varmkorv'', mi_price = 5, categoryId = ''varm_mat''\<rparr>,
     \<lparr>mi_id = ''veggie_dog'', mi_name = ''Veggie hotdog'', mi_price = 5, categoryId = ''varm_mat''\<rparr>,
     \<lparr>mi_id = ''grilled_sausage'', mi_name = ''Grillad wienerkorv i brod'', mi_price = 12, categoryId = ''varm_mat''\<rparr>,
     \<lparr>mi_id = ''pizza'', mi_name = ''Surdegspizza'', mi_price = 12, categoryId = ''varm_mat''\<rparr>,
     \<lparr>mi_id = ''onion'', mi_name = ''Rostad lok'', mi_price = 2, categoryId = ''toppings''\<rparr>,
     \<lparr>mi_id = ''cabbage'', mi_name = ''Picklad rodkal'', mi_price = 3, categoryId = ''toppings''\<rparr>,
     \<lparr>mi_id = ''icecream_basic'', mi_name = ''Mjukglass'', mi_price = 7, categoryId = ''fika_glass''\<rparr>,
     \<lparr>mi_id = ''coffee'', mi_name = ''Kaffe'', mi_price = 9, categoryId = ''fika_glass''\<rparr>,
     \<lparr>mi_id = ''kanelbulle'', mi_name = ''Kanelbulle'', mi_price = 5, categoryId = ''fika_glass''\<rparr>,
     \<lparr>mi_id = ''fountain_drink'', mi_name = ''Dryck i mugg'', mi_price = 10, categoryId = ''kall_dryck''\<rparr>,
     \<lparr>mi_id = ''iskub_cola'', mi_name = ''ISKUB Cola'', mi_price = 19, categoryId = ''kall_dryck''\<rparr>,
     \<lparr>mi_id = ''iskub_orange'', mi_name = ''ISKUB Apelsin'', mi_price = 19, categoryId = ''kall_dryck''\<rparr>]"

text \<open>
  \<open>Object.fromEntries\<close>: a later entry for the same key replaces an earlier one. The
  lookup \<open>serverMenuById[k]\<close> is modelled on the table's own keys (the names every
  JavaScript object inherits, such as \<open>constructor\<close>, are outside the model); the display
  names are written without their diacritics.
\<close>

definition Object_fromEntries :: "('k \<times> 'v) list \<Rightarrow> 'k \<rightharpoonup> 'v" where
  "Object_fromEntries kvs = map_of (rev kvs)"

definition serverMenuById :: "string \<rightharpoonup> ServerMenuItem" where
  "serverMenuById = Object_fromEntries (map (\<lambda>i. (mi_id i, i)) serverMenuItems)"

section \<open>The store (store/database.ts)\<close>

text \<open>
  Each table is the list of its rows in insertion order. \<open>INSERT OR REPLACE\<close> removes the
  rows that hold the same primary key and appends the new row; a \<open>SELECT ... WHERE\<close>
  read with \<open>.get\<close> yields the first matching row. A row is stored as the object it
  is read back as.
\<close>

record FavoriteRow =
  fv_telegramUserId :: string
  fv_menuItemId :: string
  fv_createdAt :: string

record CategoryStatRow =
  category_a :: string
  category_b :: string
  co_occurrence_count :: int

record database =
  orders :: "Order list"
  payment_sessions :: "PaymentSession list"
  receipts :: "TelegramReceipt list"
  stores :: "Store list"
  user_contexts :: "UserContextRow list"
  favorites :: "FavoriteRow list"
  order_category_stats :: "CategoryStatRow list"

fun sql_MAX :: "int list \<Rightarrow> int option" where
  "sql_MAX [] = None"
| "sql_MAX (x # xs) = Some (fold max xs x)"

definition nextOrderNumber :: "database \<Rightarrow> int" where
  "nextOrderNumber d =
     (case sql_MAX (map orderNumber (orders d)) of None \<Rightarrow> 9 | Some max_num \<Rightarrow> max_num) + 1"

definition saveOrder :: "database \<Rightarrow> Order \<Rightarrow> database" where
  "saveOrder d order =
     d\<lparr>orders := filter (\<lambda>r. o_id r \<noteq> o_id order) (orders d) @ [order]\<rparr>"

definition getOrder :: "database \<Rightarrow> string \<Rightarrow> Order option" where
  "getOrder d orderId = find (\<lambda>r. o_id r = orderId) (orders d)"

definition updateOrder :: "database \<Rightarrow> string \<Rightarrow> (Order \<Rightarrow> Order) \<Rightarrow> Order option \<times> database" where
  "updateOrder d orderId updates =
     (case getOrder d orderId of
        None \<Rightarrow> (None, d)
      | Some existing \<Rightarrow>
          (let merged = updates existing; d' = saveOrder d merged
           in (getOrder d' orderId, d')))"

definition savePaymentSession :: "database \<Rightarrow> PaymentSession \<Rightarrow> database" where
  "savePaymentSession d session =
     d\<lparr>payment_sessions := filter (\<lambda>r. ps_id r \<noteq> ps_id session) (payment_sessions d) @ [session]\<rparr>"

definition getPaymentSession :: "database \<Rightarrow> string \<Rightarrow> PaymentSession option" where
  "getPaymentSession d sessionId = find (\<lambda>r. ps_id r = sessionId) (payment_sessions d)"

definition getPaymentSessionByExternalRef :: "database \<Rightarrow> string \<Rightarrow> PaymentSession option" where
  "getPaymentSessionByExternalRef d externalRef =
     find (\<lambda>r. externalReference r = externalRef) (payment_sessions d)"

definition updatePaymentSession ::
  "database \<Rightarrow> string \<Rightarrow> (PaymentSession \<Rightarrow> PaymentSession) \<Rightarrow> string \<Rightarrow> PaymentSession option \<times> database" where
  "updatePaymentSession d sessionId updates now =
     (case getPaymentSession d sessionId of
        None \<Rightarrow> (None, d)
      | Some existing \<Rightarrow>
          (let merged = (updates existing)\<lparr>ps_updatedAt := now\<rparr>; d' = savePaymentSession d merged
           in (getPaymentSession d' sessionId, d')))"

definition saveReceipt :: "database \<Rightarrow> TelegramReceipt \<Rightarrow> database" where
  "saveReceipt d receipt =
     d\<lparr>receipts := filter (\<lambda>r. rc_orderId r \<noteq> rc_orderId receipt) (receipts d) @ [receipt]\<rparr>"

definition getReceipt :: "database \<Rightarrow> string \<Rightarrow> TelegramReceipt option" where
  "getReceipt d orderId = find (\<lambda>r. rc_orderId r = orderId) (receipts d)"

definition getStoreById :: "database \<Rightarrow> string \<Rightarrow> Store option" where
  "getStoreById d storeId = find (\<lambda>r. st_id r = storeId) (stores d)"

definition getUserContext :: "database \<Rightarrow> string \<Rightarrow> UserContextRow option" where
  "getUserContext d telegramUserId = find (\<lambda>r. uc_telegramUserId r = telegramUserId) (user_contexts d)"

definition upsertUserContext ::
  "database \<Rightarrow> string \<Rightarrow> string option \<Rightarrow> bool \<Rightarrow> string \<Rightarrow> UserContextRow option \<times> database" where
  "upsertUserContext d telegramUserId storeId enabled now =
     (let d' =
        (case getUserContext d telegramUserId of
           Some existing \<Rightarrow>
             d\<lparr>user_contexts :=
                 map (\<lambda>r. if uc_telegramUserId r = telegramUserId
                           then r\<lparr>uc_storeId := storeId, notificationsEnabled := enabled, uc_updatedAt := now\<rparr>
                           else r) (user_contexts d)\<rparr>
         | None \<Rightarrow>
             d\<lparr>user_contexts := user_contexts d @
                 [\<lparr>uc_telegramUserId = telegramUserId, uc_storeId = storeId,
                   notificationsEnabled = enabled, uc_createdAt = now, uc_updatedAt = now\<rparr>]\<rparr>)
      in (getUserContext d' telegramUserId, d'))"

definition toggleFavorite :: "database \<Rightarrow> string \<Rightarrow> string \<Rightarrow> string \<Rightarrow> bool \<times> database" where
  "toggleFavorite d telegramUserId menuItemId now =
     (if find (\<lambda>r. fv_telegramUserId r = telegramUserId \<and> fv_menuItemId r = menuItemId) (favorites d) \<noteq> None
      then (False,
            d\<lparr>favorites := filter (\<lambda>r. \<not> (fv_telegramUserId r = telegramUserId \<and> fv_menuItemId r = menuItemId))
                                  (favorites d)\<rparr>)
      else (True,
            d\<lparr>favorites := favorites d @
                [\<lparr>fv_telegramUserId = telegramUserId, fv_menuItemId = menuItemId, fv_createdAt = now\<rparr>]\<rparr>))"

text \<open>
  \<open>recordCategoryCoOccurrence\<close>: the pair is put in order (\<open>sort\<close> on two strings), then
  counted: a new row with count 1, or the existing row's count plus one.
\<close>

definition recordCategoryCoOccurrence :: "database \<Rightarrow> string \<Rightarrow> string \<Rightarrow> database" where
  "recordCategoryCoOccurrence d categoryA categoryB =
     (if categoryA = categoryB then d
      else
        (let a = (if categoryA \<le> categoryB then categoryA else categoryB);
             b = (if categoryA \<le> categoryB then categoryB else categoryA)
         in if find (\<lambda>r. category_a r = a \<and> category_b r = b) (order_category_stats d) \<noteq> None
            then d\<lparr>order_category_stats :=
                     map (\<lambda>r. if category_a r = a \<and> category_b r = b
                               then r\<lparr>co_occurrence_count := co_occurrence_count r + 1\<rparr> else r)
                         (order_category_stats d)\<rparr>
            else d\<lparr>order_category_stats := order_category_stats d @
                     [\<lparr>category_a = a, category_b = b, co_occurrence_count = 1\<rparr>]\<rparr>))"

section \<open>Strings, truthiness and the outside world\<close>

text \<open>\<open>!v\<close> on an environment variable or a string: unset and empty are both falsy.\<close>

definition falsy :: "string option \<Rightarrow> bool" where
  "falsy v = (case v of None \<Rightarrow> True | Some s \<Rightarrow> s = [])"

definition nonempty :: "string \<Rightarrow> string option" where
  "nonempty s = (if s = [] then None else Some s)"

definition startsWith :: "string \<Rightarrow> string \<Rightarrow> bool" where
  "startsWith s p = prefix p s"

fun str_includes :: "string \<Rightarrow> string \<Rightarrow> bool" where
  "str_includes [] p = (p = [])"
| "str_includes (c # s) p = (prefix p (c # s) \<or> str_includes s p)"

definition digit :: "nat \<Rightarrow> char" where
  "digit n = char_of (48 + n)"

function string_of_nat :: "nat \<Rightarrow> string" where
  "string_of_nat n = (if n < 10 then [digit n] else string_of_nat (n div 10) @ [digit (n mod 10)])"
  by pat_completeness auto
termination
  by (relation "measure id") auto

declare string_of_nat.simps [simp del]

definition Number_isInteger :: "rat \<Rightarrow> bool" where
  "Number_isInteger q = (of_int \<lfloor>q\<rfloor> = q)"

text \<open>
  What an operation meets outside the process: the uuids it draws, the clock readings,
  and what Stripe, Swish and Telegram answer. \<open>stripe_reply\<close> is \<open>None\<close> when
  \<open>checkout.sessions.create\<close> rejects, otherwise the session's id and url (empty when
  null); \<open>constructEvent\<close> is \<open>None\<close> when the signature check throws, otherwise the
  event's type and the id of its data object. \<open>swish_reference\<close> is the uuid already
  stripped of dashes and upper-cased.
\<close>

datatype swish_reply = CertUnreadable string | RequestRejected string | Responded nat string

record outside =
  uuid_order :: string
  uuid_session :: string
  swish_reference :: string
  now_payment :: string
  now_order :: string
  now_session :: string
  now_receipt :: string
  stripe_reply :: "(string \<times> string) option"
  swish_reply :: swish_reply
  constructEvent :: "(string \<times> string) option"
  receipt_delivered :: bool
  push_delivered :: bool

record environment =
  STRIPE_SECRET_KEY :: "string option"
  STRIPE_WEBHOOK_SECRET :: "string option"
  SWISH_CERT_PATH :: "string option"
  SWISH_MERCHANT_NUMBER :: "string option"
  TELEGRAM_BOT_TOKEN :: "string option"

text \<open>
  The trace lists, in program order, the calls that leave the engine: the requests to the
  two payment providers, each call of the receipt and of the push collaborator with its
  arguments, and each message handed to Telegram.
\<close>

datatype event =
    StripeCheckoutRequest string string rat
  | SwishPaymentRequest string rat
  | ReceiptInvoked Order string
  | ReceiptMessage string
  | PushInvoked string int
  | PushMessage string

text \<open>
  The process state: the database, the environment, the three module-level singletons
  (\<open>stripe\<close> in paymentService, \<open>bot\<close> in receiptService and in notificationService),
  the order ids of the pending \<open>setTimeout\<close> callbacks, and the trace.
\<close>

record world =
  db :: database
  env :: environment
  stripe :: bool
  receipt_bot :: bool
  notification_bot :: bool
  timers :: "string list"
  trace :: "event list"

definition emit :: "world \<Rightarrow> event \<Rightarrow> world" where
  "emit w e = w\<lparr>trace := trace w @ [e]\<rparr>"

section \<open>Payments (services/paymentService.ts)\<close>

record PaymentCreationResult =
  pc_sessionId :: string
  pc_clientSecret :: "string option"
  pc_checkoutUrl :: "string option"
  pc_swishUrl :: "string option"

record CallbackResult =
  success :: bool
  cb_orderId :: "string option"

definition getStripe :: "world \<Rightarrow> string + world" where
  "getStripe w =
     (if stripe w then Inr w
      else if falsy (STRIPE_SECRET_KEY (env w)) then Inl ''STRIPE_SECRET_KEY is not set''
      else Inr (w\<lparr>stripe := True\<rparr>))"

definition createStripePayment ::
  "world \<Rightarrow> outside \<Rightarrow> string \<Rightarrow> string \<Rightarrow> rat \<Rightarrow> string \<Rightarrow> (string + PaymentCreationResult) \<times> world" where
  "createStripePayment w x sessionId orderId amt now =
     (case getStripe w of
        Inl err \<Rightarrow> (Inl ''Stripe Checkout session creation failed'', w)
      | Inr w1 \<Rightarrow>
          (let w2 = emit w1 (StripeCheckoutRequest orderId sessionId (amt * 100))
           in case stripe_reply x of
                None \<Rightarrow> (Inl ''Stripe Checkout session creation failed'', w2)
              | Some (checkoutId, url) \<Rightarrow>
                  (let session = \<lparr>ps_id = sessionId, ps_orderId = orderId, ps_method = Card,
                                   ps_amount = amt, ps_status = Created,
                                   externalReference = checkoutId,
                                   ps_createdAt = now, ps_updatedAt = now\<rparr>
                   in (Inr \<lparr>pc_sessionId = sessionId, pc_clientSecret = None,
                             pc_checkoutUrl = Some url, pc_swishUrl = None\<rparr>,
                       w2\<lparr>db := savePaymentSession (db w2) session\<rparr>))))"

definition swish_not_configured :: string where
  "swish_not_configured =
     ''Swish is not configured. Set SWISH_CERT_PATH and SWISH_MERCHANT_NUMBER in .env. '' @
     ''Real Swish integration requires a merchant TLS certificate (.p12) from your bank.''"

definition swish_bad_status :: "nat \<Rightarrow> string" where
  "swish_bad_status code =
     ''Swish API returned status '' @ string_of_nat code @ ''. '' @
     ''Check certificate and merchant number configuration.''"

definition last_segment :: "string \<Rightarrow> string" where
  "last_segment s = rev (takeWhile (\<lambda>c. c \<noteq> CHR ''/'') (rev s))"

definition createSwishPayment ::
  "world \<Rightarrow> outside \<Rightarrow> string \<Rightarrow> string \<Rightarrow> rat \<Rightarrow> string \<Rightarrow> (string + PaymentCreationResult) \<times> world" where
  "createSwishPayment w x sessionId orderId amt now =
     (if falsy (SWISH_CERT_PATH (env w)) \<or> falsy (SWISH_MERCHANT_NUMBER (env w))
      then (Inl swish_not_configured, w)
      else
        (case swish_reply x of
           CertUnreadable err \<Rightarrow> (Inl err, w)
         | RequestRejected err \<Rightarrow> (Inl err, emit w (SwishPaymentRequest (swish_reference x) amt))
         | Responded statusCode location \<Rightarrow>
             (let w1 = emit w (SwishPaymentRequest (swish_reference x) amt)
              in if statusCode \<noteq> 201 \<or> location = [] then (Inl (swish_bad_status statusCode), w1)
                 else
                   (let requestId = last_segment location;
                        session = \<lparr>ps_id = sessionId, ps_orderId = orderId, ps_method = Swish,
                                   ps_amount = amt, ps_status = Created,
                                   externalReference = swish_reference x,
                                   ps_createdAt = now, ps_updatedAt = now\<rparr>
                    in (Inr \<lparr>pc_sessionId = sessionId, pc_clientSecret = None, pc_checkoutUrl = None,
                              pc_swishUrl = Some (''swish://paymentrequest?token='' @ requestId)\<rparr>,
                        w1\<lparr>db := savePaymentSession (db w1) session\<rparr>)))))"

definition createPaymentForOrder ::
  "world \<Rightarrow> outside \<Rightarrow> string \<Rightarrow> rat \<Rightarrow> PaymentMethod \<Rightarrow> (string + PaymentCreationResult) \<times> world" where
  "createPaymentForOrder w x orderId amt method =
     (let sessionId = uuid_session x; now = now_payment x
      in if method = Card then createStripePayment w x sessionId orderId amt now
         else createSwishPayment w x sessionId orderId amt now)"

section \<open>Receipt and push collaborators (receiptService.ts, notificationService.ts)\<close>

text \<open>
  \<open>getBot\<close> of either service: the cached client, or a new one when the token is set.
  The text of a message is not modelled.
\<close>

definition receipt_getBot :: "world \<Rightarrow> bool \<times> world" where
  "receipt_getBot w =
     (if receipt_bot w then (True, w)
      else if falsy (TELEGRAM_BOT_TOKEN (env w)) then (False, w)
      else (True, w\<lparr>receipt_bot := True\<rparr>))"

definition notification_getBot :: "world \<Rightarrow> bool \<times> world" where
  "notification_getBot w =
     (if notification_bot w then (True, w)
      else if falsy (TELEGRAM_BOT_TOKEN (env w)) then (False, w)
      else (True, w\<lparr>notification_bot := True\<rparr>))"

definition sendTelegramReceipt :: "world \<Rightarrow> outside \<Rightarrow> Order \<Rightarrow> string \<Rightarrow> bool \<times> world" where
  "sendTelegramReceipt w x order chatId =
     (let w0 = emit w (ReceiptInvoked order chatId);
          already = (case getReceipt (db w0) (o_id order) of
                       None \<Rightarrow> False
                     | Some existing \<Rightarrow> rc_sent existing)
      in if already then (True, w0)
         else
           (case receipt_getBot w0 of
              (True, w1) \<Rightarrow>
                (let w2 = emit w1 (ReceiptMessage chatId)
                 in if receipt_delivered x
                    then (True, w2\<lparr>db := saveReceipt (db w2)
                             \<lparr>rc_orderId = o_id order, rc_sent = True, rc_sentAt = Some (now_receipt x)\<rparr>\<rparr>)
                    else (False, w2\<lparr>db := saveReceipt (db w2)
                             \<lparr>rc_orderId = o_id order, rc_sent = False, rc_sentAt = None\<rparr>\<rparr>))
            | (False, w1) \<Rightarrow>
                (False, w1\<lparr>db := saveReceipt (db w1)
                             \<lparr>rc_orderId = o_id order, rc_sent = False, rc_sentAt = None\<rparr>\<rparr>)))"

definition sendOrderReadyNotification :: "world \<Rightarrow> outside \<Rightarrow> string \<Rightarrow> int \<Rightarrow> bool \<times> world" where
  "sendOrderReadyNotification w x telegramUserId orderNum =
     (let w0 = emit w (PushInvoked telegramUserId orderNum)
      in case notification_getBot w0 of
           (False, w1) \<Rightarrow> (False, w1)
         | (True, w1) \<Rightarrow> (push_delivered x, emit w1 (PushMessage telegramUserId)))"

section \<open>The order lifecycle (services/orderService.ts)\<close>

definition price_line :: "RequestItem \<Rightarrow> string + OrderLine" where
  "price_line item =
     (if \<not> Number_isInteger (ri_quantity item) \<or> ri_quantity item < 1
      then Inl ''Invalid quantity. Must be an integer >= 1''
      else
        (case serverMenuById (ri_menuItemId item) of
           None \<Rightarrow> Inl (''Invalid menuItemId: '' @ ri_menuItemId item)
         | Some menuItem \<Rightarrow>
             Inr \<lparr>ol_menuItemId = mi_id menuItem, ol_name = mi_name menuItem,
                  ol_quantity = ri_quantity item, priceAtOrder = mi_price menuItem\<rparr>))"

text \<open>\<open>request.items.map\<close> with a callback that throws: the first failing item ends the map.\<close>

fun build_lines :: "RequestItem list \<Rightarrow> string + OrderLine list" where
  "build_lines [] = Inr []"
| "build_lines (item # rest) =
     (case price_line item of
        Inl err \<Rightarrow> Inl err
      | Inr line \<Rightarrow>
          (case build_lines rest of
             Inl err \<Rightarrow> Inl err
           | Inr others \<Rightarrow> Inr (line # others)))"

definition total_of_lines :: "OrderLine list \<Rightarrow> rat" where
  "total_of_lines ls = foldl (\<lambda>sum line. sum + ol_quantity line * priceAtOrder line) 0 ls"

text \<open>\<open>[...new Set(xs)]\<close>: the distinct values in the order of their first occurrence.\<close>

definition Set_values :: "'a list \<Rightarrow> 'a list" where
  "Set_values xs = foldl (\<lambda>seen v. if v \<in> set seen then seen else seen @ [v]) [] xs"

text \<open>The index pairs \<open>i < j\<close> of the double loop, in the order the loop visits them.\<close>

fun category_pairs :: "string list \<Rightarrow> (string \<times> string) list" where
  "category_pairs [] = []"
| "category_pairs (c # cs) = map (Pair c) cs @ category_pairs cs"

definition record_categories :: "database \<Rightarrow> RequestItem list \<Rightarrow> database" where
  "record_categories d its =
     (let menuItems = List.map_filter (\<lambda>item. serverMenuById (ri_menuItemId item)) its;
          categoryIds = Set_values (filter (\<lambda>c. c \<noteq> []) (map categoryId menuItems))
      in foldl (\<lambda>d' (a, b). recordCategoryCoOccurrence d' a b) d (category_pairs categoryIds))"

definition createOrder ::
  "world \<Rightarrow> outside \<Rightarrow> CreateOrderRequest \<Rightarrow> (string + CreateOrderResponse) \<times> world" where
  "createOrder w x request =
     (if items request = [] then (Inl ''Order must contain at least one item'', w)
      else if rq_telegramUserId request = [] then (Inl ''telegramUserId is required'', w)
      else if rq_storeId request = [] then (Inl ''storeId is required for order creation'', w)
      else if getStoreById (db w) (rq_storeId request) = None
           then (Inl (''Invalid storeId: '' @ rq_storeId request), w)
      else
        (let orderId = uuid_order x;
             orderNum = nextOrderNumber (db w)
         in case build_lines (items request) of
              Inl err \<Rightarrow> (Inl err, w)
            | Inr ls \<Rightarrow>
                (let total = total_of_lines ls
                 in case createPaymentForOrder w x orderId total (rq_paymentMethod request) of
                      (Inl err, w1) \<Rightarrow> (Inl err, w1)
                    | (Inr paymentResult, w1) \<Rightarrow>
                        (let order = \<lparr>o_id = orderId, orderNumber = orderNum, lines = ls,
                                      totalPrice = total,
                                      o_paymentMethod = rq_paymentMethod request,
                                      o_status = Pending,
                                      paymentSessionId = pc_sessionId paymentResult,
                                      receiptSent = False,
                                      o_telegramUserId = rq_telegramUserId request,
                                      o_storeId = rq_storeId request,
                                      o_createdAt = now_order x\<rparr>;
                             d2 = saveOrder (db w1) order;
                             d3 = record_categories d2 (items request)
                         in (Inr \<lparr>rs_orderId = orderId, rs_orderNumber = orderNum,
                                   rs_status = Pending,
                                   rs_paymentSessionId = pc_sessionId paymentResult,
                                   amount = total,
                                   rs_clientSecret = Option.bind (pc_clientSecret paymentResult) nonempty,
                                   rs_checkoutUrl = Option.bind (pc_checkoutUrl paymentResult) nonempty,
                                   rs_swishUrl = Option.bind (pc_swishUrl paymentResult) nonempty\<rparr>,
                             w1\<lparr>db := d3\<rparr>)))))"

text \<open>
  \<open>confirmOrder\<close> sets the status, hands the order it read back to the receipt service,
  and leaves a timer behind that will call \<open>markOrderReady\<close>.
\<close>

definition confirmOrder :: "world \<Rightarrow> outside \<Rightarrow> string \<Rightarrow> Order option \<times> world" where
  "confirmOrder w x orderId =
     (case updateOrder (db w) orderId (\<lambda>r. r\<lparr>o_status := Confirmed\<rparr>) of
        (None, d1) \<Rightarrow> (None, w\<lparr>db := d1\<rparr>)
      | (Some order, d1) \<Rightarrow>
          (case sendTelegramReceipt (w\<lparr>db := d1\<rparr>) x order (o_telegramUserId order) of
             (receiptOk, w2) \<Rightarrow>
               (let w3 = (if receiptOk
                          then w2\<lparr>db := snd (updateOrder (db w2) orderId (\<lambda>r. r\<lparr>receiptSent := True\<rparr>))\<rparr>
                          else w2);
                    w4 = w3\<lparr>timers := timers w3 @ [orderId]\<rparr>
                in (getOrder (db w4) orderId, w4))))"

definition markOrderReady :: "world \<Rightarrow> outside \<Rightarrow> string \<Rightarrow> Order option \<times> world" where
  "markOrderReady w x orderId =
     (case getOrder (db w) orderId of
        None \<Rightarrow> (None, w)
      | Some order \<Rightarrow>
          if o_status order \<noteq> Confirmed then (Some order, w)
          else
            (let w1 = w\<lparr>db := snd (updateOrder (db w) orderId (\<lambda>r. r\<lparr>o_status := Ready\<rparr>))\<rparr>;
                 enabled = (case getUserContext (db w1) (o_telegramUserId order) of
                              None \<Rightarrow> False
                            | Some userCtx \<Rightarrow> notificationsEnabled userCtx);
                 w2 = (if enabled
                       then snd (sendOrderReadyNotification w1 x (o_telegramUserId order) (orderNumber order))
                       else w1)
             in (getOrder (db w2) orderId, w2)))"

text \<open>The callback of \<open>setTimeout\<close> in \<open>confirmOrder\<close>, run for one pending timer.\<close>

definition fire_timer :: "world \<Rightarrow> outside \<Rightarrow> string \<Rightarrow> world" where
  "fire_timer w x orderId = snd (markOrderReady (w\<lparr>timers := remove1 orderId (timers w)\<rparr>) x orderId)"

section \<open>Provider callbacks (services/paymentService.ts)\<close>

definition handleStripeWebhook :: "world \<Rightarrow> outside \<Rightarrow> CallbackResult \<times> world" where
  "handleStripeWebhook w x =
     (if falsy (STRIPE_WEBHOOK_SECRET (env w)) then (\<lparr>success = False, cb_orderId = None\<rparr>, w)
      else
        (case getStripe w of
           Inl err \<Rightarrow> (\<lparr>success = False, cb_orderId = None\<rparr>, w)
         | Inr w1 \<Rightarrow>
             (case constructEvent x of
                None \<Rightarrow> (\<lparr>success = False, cb_orderId = None\<rparr>, w1)
              | Some (type, checkoutId) \<Rightarrow>
                  if type = ''checkout.session.completed'' then
                    (case getPaymentSessionByExternalRef (db w1) checkoutId of
                       None \<Rightarrow> (\<lparr>success = False, cb_orderId = None\<rparr>, w1)
                     | Some session \<Rightarrow>
                         (let w2 = w1\<lparr>db := snd (updatePaymentSession (db w1) (ps_id session)
                                                 (\<lambda>r. r\<lparr>ps_status := Succeeded\<rparr>) (now_session x))\<rparr>
                          in case confirmOrder w2 x (ps_orderId session) of
                               (order, w3) \<Rightarrow>
                                 (\<lparr>success = True, cb_orderId = map_option o_id order\<rparr>, w3)))
                  else if type = ''checkout.session.async_payment_failed'' then
                    (case getPaymentSessionByExternalRef (db w1) checkoutId of
                       None \<Rightarrow> (\<lparr>success = False, cb_orderId = None\<rparr>, w1)
                     | Some session \<Rightarrow>
                         (\<lparr>success = False, cb_orderId = None\<rparr>,
                          w1\<lparr>db := snd (updatePaymentSession (db w1) (ps_id session)
                                         (\<lambda>r. r\<lparr>ps_status := Failed\<rparr>) (now_session x))\<rparr>))
                  else (\<lparr>success = True, cb_orderId = None\<rparr>, w1))))"

definition handleSwishCallback :: "world \<Rightarrow> outside \<Rightarrow> string \<Rightarrow> string \<Rightarrow> CallbackResult \<times> world" where
  "handleSwishCallback w x reference status =
     (case getPaymentSessionByExternalRef (db w) reference of
        None \<Rightarrow> (\<lparr>success = False, cb_orderId = None\<rparr>, w)
      | Some session \<Rightarrow>
          if status = ''PAID'' then
            (let w1 = w\<lparr>db := snd (updatePaymentSession (db w) (ps_id session)
                                    (\<lambda>r. r\<lparr>ps_status := Succeeded\<rparr>) (now_session x))\<rparr>
             in case confirmOrder w1 x (ps_orderId session) of
                  (order, w2) \<Rightarrow> (\<lparr>success = True, cb_orderId = map_option o_id order\<rparr>, w2))
          else if status = ''DECLINED'' \<or> status = ''ERROR'' then
            (\<lparr>success = False, cb_orderId = None\<rparr>,
             w\<lparr>db := snd (updatePaymentSession (db w) (ps_id session)
                           (\<lambda>r. r\<lparr>ps_status := Failed\<rparr>) (now_session x))\<rparr>)
          else (\<lparr>success = False, cb_orderId = None\<rparr>, w))"

section \<open>Routes and the favorites service\<close>

text \<open>
  \<open>POST /api/orders\<close> (routes/orders.ts): the checks on the body, then \<open>createOrder\<close>;
  a thrown message is sorted into 400 or 500 by its text. The body is typed, so the check of
  the payment method has nothing to reject.
\<close>

definition post_orders ::
  "world \<Rightarrow> outside \<Rightarrow> CreateOrderRequest \<Rightarrow> (nat \<times> (string + CreateOrderResponse)) \<times> world" where
  "post_orders w x body =
     (if items body = [] then ((400, Inl ''Order must contain at least one item''), w)
      else if rq_telegramUserId body = [] then ((400, Inl ''telegramUserId is required''), w)
      else if rq_storeId body = [] then ((400, Inl ''storeId is required''), w)
      else
        (case createOrder w x body of
           (Inr result, w') \<Rightarrow> ((201, Inr result), w')
         | (Inl message, w') \<Rightarrow>
             if startsWith message ''Invalid'' \<or> str_includes message ''must'' \<or>
                str_includes message ''required'' \<or> str_includes message ''not configured''
             then ((400, Inl message), w')
             else ((500, Inl message), w')))"

definition toggleUserFavorite :: "database \<Rightarrow> string \<Rightarrow> string \<Rightarrow> string \<Rightarrow> (string \<times> bool) \<times> database" where
  "toggleUserFavorite d telegramUserId menuItemId now =
     (case toggleFavorite d telegramUserId menuItemId now of
        (isFavorite, d') \<Rightarrow> ((menuItemId, isFavorite), d'))"

text \<open>The favorites of the whole store as a set of (user, item) pairs.\<close>

definition favorite_set :: "database \<Rightarrow> (string \<times> string) set" where
  "favorite_set d = (\<lambda>r. (fv_telegramUserId r, fv_menuItemId r)) ` set (favorites d)"

section \<open>Validation as the requirements state it\<close>


section \<open>Example states\<close>

text \<open>A freshly started process with every provider configured, one store and no orders.\<close>

definition example_db :: database where
  "example_db =
     \<lparr>orders = [], payment_sessions = [], receipts = [],
      stores = [\<lparr>st_id = ''store-malmo'', st_name = ''IKEA Malmo'', st_city = ''Malmo'',
                 latitude = 55571 / 1000, longitude = 130003 / 10000\<rparr>],
      user_contexts = [\<lparr>uc_telegramUserId = ''user-1'', uc_storeId = Some ''store-malmo'',
                        notificationsEnabled = True, uc_createdAt = ''t0'', uc_updatedAt = ''t0''\<rparr>],
      favorites = [], order_category_stats = []\<rparr>"

definition example_env :: environment where
  "example_env =
     \<lparr>STRIPE_SECRET_KEY = Some ''sk_test'', STRIPE_WEBHOOK_SECRET = Some ''whsec'',
      SWISH_CERT_PATH = Some ''swish.p12'', SWISH_MERCHANT_NUMBER = Some ''1231181189'',
      TELEGRAM_BOT_TOKEN = Some ''bot-token''\<rparr>"

definition example_world :: world where
  "example_world =
     \<lparr>db = example_db, env = example_env, stripe = False, receipt_bot = False,
      notification_bot = False, timers = [], trace = []\<rparr>"

definition example_outside :: outside where
  "example_outside =
     \<lparr>uuid_order = ''order-1'', uuid_session = ''session-1'', swish_reference = ''REF1'',
      now_payment = ''t1'', now_order = ''t1'', now_session = ''t2'', now_receipt = ''t2'',
      stripe_reply = Some (''cs_1'', ''https://checkout/cs_1''),
      swish_reply = Responded 201 ''https://swish/paymentrequests/ABC'',
      constructEvent = Some (''checkout.session.completed'', ''cs_1''),
      receipt_delivered = True, push_delivered = True\<rparr>"

text \<open>Two hot dogs paid by card; the caller claims a unit price of 999.\<close>

definition example_request :: CreateOrderRequest where
  "example_request =
     \<lparr>items = [\<lparr>ri_menuItemId = ''hotdog_classic'', ri_name = ''Hot dog'',
                ri_quantity = 2, ri_price = 999\<rparr>],
      rq_paymentMethod = Card, rq_telegramUserId = ''user-1'', rq_storeId = ''store-malmo''\<rparr>"


text \<open>The same process started without \<open>STRIPE_SECRET_KEY\<close>.\<close>

definition keyless_world :: world where
  "keyless_world = example_world\<lparr>env := example_env\<lparr>STRIPE_SECRET_KEY := None\<rparr>\<rparr>"

text \<open>
  The example order on its way: created through the route, paid (the webhook of the
  completed checkout), made ready by its timer. \<open>stray_event\<close> is a verified Stripe
  event of another type for a checkout session the store does not know;
  \<open>muted_world\<close> is the paid state after the user switched notifications off.
\<close>

definition created_world :: world where
  "created_world = snd (post_orders example_world example_outside example_request)"

definition paid_world :: world where
  "paid_world = snd (handleStripeWebhook created_world example_outside)"

definition ready_world :: world where
  "ready_world = fire_timer paid_world example_outside ''order-1''"

definition stray_event :: outside where
  "stray_event = example_outside\<lparr>constructEvent := Some (''checkout.session.expired'', ''cs_unknown'')\<rparr>"

definition muted_world :: world where
  "muted_world = paid_world\<lparr>db := snd (upsertUserContext (db paid_world) ''user-1'' None False ''t3'')\<rparr>"

section \<open>Executions of the engine\<close>








section \<open>Pricing of a new order\<close>

lemma find_append_case:
  "find P (xs @ ys) = (case find P xs of None \<Rightarrow> find P ys | Some v \<Rightarrow> Some v)"
  by (induction xs) auto

lemma find_filter_none: "find (\<lambda>r. f r = k) (filter (\<lambda>r. f r \<noteq> k) xs) = None"
  by (induction xs) auto

lemma getOrder_saveOrder_same: "getOrder (saveOrder d order) (o_id order) = Some order"
  by (simp add: getOrder_def saveOrder_def find_append_case find_filter_none)

lemma getOrder_Some_id: "getOrder d orderId = Some order \<Longrightarrow> o_id order = orderId"
  unfolding getOrder_def by (induction "orders d" arbitrary: d) (auto simp: find_Some_iff)

lemma orders_recordCategoryCoOccurrence [simp]:
  "orders (recordCategoryCoOccurrence d a b) = orders d"
  by (simp add: recordCategoryCoOccurrence_def Let_def)

lemma payment_sessions_recordCategoryCoOccurrence [simp]:
  "payment_sessions (recordCategoryCoOccurrence d a b) = payment_sessions d"
  by (simp add: recordCategoryCoOccurrence_def Let_def)

lemma orders_fold_record:
  "orders (foldl (\<lambda>d' (a, b). recordCategoryCoOccurrence d' a b) d ps) = orders d"
  by (induction ps arbitrary: d) (auto)

lemma sessions_fold_record:
  "payment_sessions (foldl (\<lambda>d' (a, b). recordCategoryCoOccurrence d' a b) d ps) = payment_sessions d"
  by (induction ps arbitrary: d) (auto)

lemma orders_record_categories [simp]: "orders (record_categories d its) = orders d"
  by (simp add: record_categories_def Let_def orders_fold_record)

lemma payment_sessions_record_categories [simp]:
  "payment_sessions (record_categories d its) = payment_sessions d"
  by (simp add: record_categories_def Let_def sessions_fold_record)

lemma getOrder_record_categories [simp]:
  "getOrder (record_categories d its) orderId = getOrder d orderId"
  by (simp add: getOrder_def)












section \<open>Validation comes before persistence\<close>








section \<open>Unconfigured payment providers at the route\<close>

text \<open>
  C4. With no Stripe client cached and \<open>STRIPE_SECRET_KEY\<close> unset, a well-formed card
  order is answered with status 500: \<open>getStripe\<close> throws inside the \<open>try\<close> of
  \<open>createStripePayment\<close>, whose \<open>catch\<close> rethrows a message that the route does not
  sort under 400. The Swish branch, whose message says "not configured", is answered
  with 400.
\<close>

theorem stripe_key_missing_is_500:
  "STRIPE_SECRET_KEY (env keyless_world) = None \<and> \<not> stripe keyless_world \<and>
   post_orders keyless_world example_outside example_request
     = ((500, Inl ''Stripe Checkout session creation failed''), keyless_world)"
  by code_simp

section \<open>The ready transition\<close>

lemma updateOrder_existing:
  assumes "getOrder d orderId = Some existing" and "o_id (updates existing) = o_id existing"
  shows "updateOrder d orderId updates = (Some (updates existing), saveOrder d (updates existing))"
proof -
  from assms(1) have "o_id existing = orderId" by (rule getOrder_Some_id)
  with assms(2) have "getOrder (saveOrder d (updates existing)) orderId = Some (updates existing)"
    using getOrder_saveOrder_same [of d "updates existing"] by simp
  with assms(1) show ?thesis by (simp add: updateOrder_def)
qed


lemma getUserContext_saveOrder [simp]:
  "getUserContext (saveOrder d order) u = getUserContext d u"
  by (simp add: getUserContext_def saveOrder_def)

lemma db_sendOrderReadyNotification [simp]:
  "db (snd (sendOrderReadyNotification w x u n)) = db w"
  by (simp add: sendOrderReadyNotification_def notification_getBot_def emit_def Let_def)

lemma trace_sendOrderReadyNotification:
  "trace (snd (sendOrderReadyNotification w x u n)) =
     trace w @ PushInvoked u n #
       (if notification_bot w \<or> \<not> falsy (TELEGRAM_BOT_TOKEN (env w)) then [PushMessage u] else [])"
  by (simp add: sendOrderReadyNotification_def notification_getBot_def emit_def Let_def)


lemma markOrderReady_confirmed:
  assumes "getOrder (db w) orderId = Some order" and "o_status order = Confirmed"
  shows "markOrderReady w x orderId =
     (Some (order\<lparr>o_status := Ready\<rparr>),
      (if (case getUserContext (db w) (o_telegramUserId order) of
             None \<Rightarrow> False | Some userCtx \<Rightarrow> notificationsEnabled userCtx)
       then snd (sendOrderReadyNotification
                   (w\<lparr>db := saveOrder (db w) (order\<lparr>o_status := Ready\<rparr>)\<rparr>) x
                   (o_telegramUserId order) (orderNumber order))
       else w\<lparr>db := saveOrder (db w) (order\<lparr>o_status := Ready\<rparr>)\<rparr>))"
proof -
  have upd: "updateOrder (db w) orderId (\<lambda>r. r\<lparr>o_status := Ready\<rparr>) =
      (Some (order\<lparr>o_status := Ready\<rparr>), saveOrder (db w) (order\<lparr>o_status := Ready\<rparr>))"
    using assms(1) by (simp add: updateOrder_existing)
  from assms(1) have oid: "o_id order = orderId" by (rule getOrder_Some_id)
  have readback: "getOrder (saveOrder (db w) (order\<lparr>o_status := Ready\<rparr>)) orderId =
      Some (order\<lparr>o_status := Ready\<rparr>)"
    using getOrder_saveOrder_same [of "db w" "order\<lparr>o_status := Ready\<rparr>"] oid by simp
  show ?thesis
    using assms readback by (simp add: markOrderReady_def upd Let_def)
qed



text \<open>
  C9. When \<open>markOrderReady\<close> takes a confirmed order to \<open>Ready\<close>, the engine calls the
  push collaborator \<open>sendOrderReadyNotification\<close>, once and for the order's user and
  number, exactly when that user's stored context exists with notifications enabled;
  otherwise the trace is not extended at all. What the collaborator then does is part of
  the statement: it hands a message to Telegram when a bot is cached or the token is set.
\<close>

theorem push_iff_notifications_enabled:
  assumes "getOrder (db w) orderId = Some order" and "o_status order = Confirmed"
  shows "map_option o_status (fst (markOrderReady w x orderId)) = Some Ready \<and>
         trace (snd (markOrderReady w x orderId)) = trace w @
           (if (\<exists>userCtx. getUserContext (db w) (o_telegramUserId order) = Some userCtx \<and>
                  notificationsEnabled userCtx)
            then PushInvoked (o_telegramUserId order) (orderNumber order) #
                 (if notification_bot w \<or> \<not> falsy (TELEGRAM_BOT_TOKEN (env w))
                  then [PushMessage (o_telegramUserId order)] else [])
            else [])"
proof (cases "getUserContext (db w) (o_telegramUserId order)")
  case None
  then show ?thesis by (simp add: markOrderReady_confirmed [OF assms])
next
  case (Some userCtx)
  then show ?thesis
    by (simp add: markOrderReady_confirmed [OF assms] trace_sendOrderReadyNotification)
qed

theorem push_iff_notifications_enabled_witness:
  "getOrder (db paid_world) ''order-1'' = Some (the (getOrder (db paid_world) ''order-1'')) \<and>
   o_status (the (getOrder (db paid_world) ''order-1'')) = Confirmed \<and>
   map_option notificationsEnabled (getUserContext (db paid_world) ''user-1'') = Some True \<and>
   trace (snd (markOrderReady paid_world example_outside ''order-1''))
     = trace paid_world @ [PushInvoked ''user-1'' 10, PushMessage ''user-1''] \<and>
   map_option notificationsEnabled (getUserContext (db muted_world) ''user-1'') = Some False \<and>
   trace (snd (markOrderReady muted_world example_outside ''order-1'')) = trace muted_world"
proof -
  let ?c = "the (getOrder (db paid_world) ''order-1'')"
  have c: "getOrder (db paid_world) ''order-1'' = Some ?c" by code_simp
  have cs: "o_status ?c = Confirmed" by code_simp
  have user: "o_telegramUserId ?c = ''user-1''" and number: "orderNumber ?c = 10" by code_simp+
  have on: "map_option notificationsEnabled (getUserContext (db paid_world) ''user-1'') = Some True"
    by code_simp
  have bot: "notification_bot paid_world \<or> \<not> falsy (TELEGRAM_BOT_TOKEN (env paid_world))"
    by code_simp
  have m: "getOrder (db muted_world) ''order-1'' = Some ?c" by code_simp
  have off: "map_option notificationsEnabled (getUserContext (db muted_world) ''user-1'') = Some False"
    by code_simp
  from on have enabled: "\<exists>userCtx. getUserContext (db paid_world) ''user-1'' = Some userCtx \<and>
      notificationsEnabled userCtx"
    by auto
  from off have disabled: "\<not> (\<exists>userCtx. getUserContext (db muted_world) ''user-1'' = Some userCtx \<and>
      notificationsEnabled userCtx)"
    by auto
  from push_iff_notifications_enabled [OF c cs, of example_outside] user number enabled bot
  have loud: "trace (snd (markOrderReady paid_world example_outside ''order-1''))
     = trace paid_world @ [PushInvoked ''user-1'' 10, PushMessage ''user-1'']"
    by simp
  from push_iff_notifications_enabled [OF m cs, of example_outside] user disabled
  have quiet: "trace (snd (markOrderReady muted_world example_outside ''order-1'')) = trace muted_world"
    by simp
  from c cs on off loud quiet show ?thesis by simp
qed

section \<open>Favorites\<close>

lemma find_favorite_iff:
  "find (\<lambda>r. fv_telegramUserId r = u \<and> fv_menuItemId r = m) (favorites d) \<noteq> None
     \<longleftrightarrow> (u, m) \<in> favorite_set d"
  by (auto simp: favorite_set_def find_None_iff)

lemma favorite_set_removed:
  "favorite_set (d\<lparr>favorites := filter (\<lambda>r. \<not> (fv_telegramUserId r = u \<and> fv_menuItemId r = m)) (favorites d)\<rparr>)
     = favorite_set d - {(u, m)}"
  by (auto simp: favorite_set_def)

lemma favorite_set_added:
  "favorite_set (d\<lparr>favorites := favorites d @
       [\<lparr>fv_telegramUserId = u, fv_menuItemId = m, fv_createdAt = now\<rparr>]\<rparr>) = insert (u, m) (favorite_set d)"
  by (auto simp: favorite_set_def)

lemma toggleFavorite_present:
  "(u, m) \<in> favorite_set d \<Longrightarrow>
     fst (toggleFavorite d u m now) = False \<and>
     favorite_set (snd (toggleFavorite d u m now)) = favorite_set d - {(u, m)}"
  unfolding toggleFavorite_def
  by (simp only: find_favorite_iff favorite_set_removed if_True fst_conv snd_conv simp_thms)

lemma toggleFavorite_absent:
  "(u, m) \<notin> favorite_set d \<Longrightarrow>
     fst (toggleFavorite d u m now) = True \<and>
     favorite_set (snd (toggleFavorite d u m now)) = insert (u, m) (favorite_set d)"
  unfolding toggleFavorite_def
  by (simp only: find_favorite_iff favorite_set_added if_False fst_conv snd_conv simp_thms)

text \<open>
  C10. \<open>toggleFavorite\<close> (and \<open>toggleUserFavorite\<close>, which passes its result on)
  returns true exactly when the pair (user, item) was not a favorite; afterwards the
  membership of that pair is flipped and every other pair is as before; a second toggle of
  the same pair restores the set of favorites.
\<close>

theorem toggleFavorite_involution:
  "fst (toggleFavorite d u m now) = ((u, m) \<notin> favorite_set d) \<and>
   fst (toggleUserFavorite d u m now) = (m, (u, m) \<notin> favorite_set d) \<and>
   snd (toggleUserFavorite d u m now) = snd (toggleFavorite d u m now) \<and>
   ((u, m) \<in> favorite_set (snd (toggleFavorite d u m now))) = ((u, m) \<notin> favorite_set d) \<and>
   favorite_set (snd (toggleFavorite d u m now)) - {(u, m)} = favorite_set d - {(u, m)} \<and>
   favorite_set (snd (toggleFavorite (snd (toggleFavorite d u m now)) u m now')) = favorite_set d"
proof (cases "(u, m) \<in> favorite_set d")
  case True
  note first = toggleFavorite_present [OF True, of now]
  from first have "(u, m) \<notin> favorite_set (snd (toggleFavorite d u m now))" by simp
  from toggleFavorite_absent [OF this, of now'] first True
  have "favorite_set (snd (toggleFavorite (snd (toggleFavorite d u m now)) u m now')) = favorite_set d"
    by auto
  with first True show ?thesis
    by (auto simp: toggleUserFavorite_def split_beta)
next
  case False
  note first = toggleFavorite_absent [OF False, of now]
  from first have "(u, m) \<in> favorite_set (snd (toggleFavorite d u m now))" by simp
  from toggleFavorite_present [OF this, of now'] first False
  have "favorite_set (snd (toggleFavorite (snd (toggleFavorite d u m now)) u m now')) = favorite_set d"
    by auto
  with first False show ?thesis
    by (auto simp: toggleUserFavorite_def split_beta)
qed

theorem toggleFavorite_involution_witness:
  "(''user-1'', ''pizza'') \<notin> favorite_set example_db \<and>
   fst (toggleFavorite example_db ''user-1'' ''pizza'' ''t1'') \<and>
   (''user-1'', ''pizza'') \<in> favorite_set (snd (toggleFavorite example_db ''user-1'' ''pizza'' ''t1'')) \<and>
   favorite_set (snd (toggleFavorite (snd (toggleFavorite example_db ''user-1'' ''pizza'' ''t1''))
                        ''user-1'' ''pizza'' ''t2'')) = favorite_set example_db"
proof -
  have absent: "(''user-1'', ''pizza'') \<notin> favorite_set example_db"
    by (simp add: favorite_set_def example_db_def)
  with toggleFavorite_involution [of example_db "''user-1''" "''pizza''" "''t1''" "''t2''"]
  show ?thesis by simp
qed

section \<open>Receipts come after confirmation\<close>








lemma trace_receipt_getBot: "trace (snd (receipt_getBot w)) = trace w"
  by (simp add: receipt_getBot_def)














section \<open>Callbacks with an unknown reference\<close>

lemma db_getStripe: "getStripe w = Inr w1 \<Longrightarrow> db w1 = db w \<and> trace w1 = trace w \<and> timers w1 = timers w \<and> env w1 = env w"
  by (auto simp: getStripe_def split: if_splits)

lemma getStripe_ok_iff: "(\<exists>w1. getStripe w = Inr w1) \<longleftrightarrow> stripe w \<or> \<not> falsy (STRIPE_SECRET_KEY (env w))"
  by (auto simp: getStripe_def)

text \<open>
  C8, as stated, fails: a verified Stripe event whose type is neither
  \<open>checkout.session.completed\<close> nor \<open>checkout.session.async_payment_failed\<close> is
  acknowledged with success although its checkout session matches no stored payment
  session.
\<close>

theorem unknown_reference_not_always_rejected:
  "getPaymentSessionByExternalRef (db created_world) ''cs_unknown'' = None \<and>
   constructEvent stray_event = Some (''checkout.session.expired'', ''cs_unknown'') \<and>
   success (fst (handleStripeWebhook created_world stray_event))"
  by code_simp

text \<open>
  C8, amended. When the reference matches no stored payment session, the Swish handler
  returns failure and changes nothing at all, and the Stripe handler leaves the database,
  the trace and the timers as they were and names no order; it reports failure for the two
  event types it handles (and whenever the webhook secret or the Stripe client is missing),
  and success for a verified event of any other type.
\<close>

theorem unknown_reference_changes_no_order:
  assumes "getPaymentSessionByExternalRef (db w) reference = None"
  shows "handleSwishCallback w x reference status = (\<lparr>success = False, cb_orderId = None\<rparr>, w) \<and>
         (constructEvent x = Some (type, reference) \<longrightarrow>
            db (snd (handleStripeWebhook w x)) = db w \<and>
            trace (snd (handleStripeWebhook w x)) = trace w \<and>
            timers (snd (handleStripeWebhook w x)) = timers w \<and>
            cb_orderId (fst (handleStripeWebhook w x)) = None \<and>
            success (fst (handleStripeWebhook w x)) =
              (\<not> falsy (STRIPE_WEBHOOK_SECRET (env w)) \<and>
               (stripe w \<or> \<not> falsy (STRIPE_SECRET_KEY (env w))) \<and>
               type \<noteq> ''checkout.session.completed'' \<and>
               type \<noteq> ''checkout.session.async_payment_failed''))"
proof -
  have swish: "handleSwishCallback w x reference status = (\<lparr>success = False, cb_orderId = None\<rparr>, w)"
    using assms by (simp add: handleSwishCallback_def)
  have stripe: "db (snd (handleStripeWebhook w x)) = db w \<and>
            trace (snd (handleStripeWebhook w x)) = trace w \<and>
            timers (snd (handleStripeWebhook w x)) = timers w \<and>
            cb_orderId (fst (handleStripeWebhook w x)) = None \<and>
            success (fst (handleStripeWebhook w x)) =
              (\<not> falsy (STRIPE_WEBHOOK_SECRET (env w)) \<and>
               (stripe w \<or> \<not> falsy (STRIPE_SECRET_KEY (env w))) \<and>
               type \<noteq> ''checkout.session.completed'' \<and>
               type \<noteq> ''checkout.session.async_payment_failed'')"
    if ev: "constructEvent x = Some (type, reference)"
  proof (cases "getStripe w")
    case (Inl err)
    then have "\<not> (stripe w \<or> \<not> falsy (STRIPE_SECRET_KEY (env w)))"
      using getStripe_ok_iff [of w] by auto
    with Inl show ?thesis by (simp add: handleStripeWebhook_def)
  next
    case (Inr w1)
    then have ok: "stripe w \<or> \<not> falsy (STRIPE_SECRET_KEY (env w))"
      using getStripe_ok_iff [of w] by blast
    from db_getStripe [OF Inr] assms have none: "getPaymentSessionByExternalRef (db w1) reference = None"
      by simp
    from db_getStripe [OF Inr] ok none show ?thesis
      by (simp add: handleStripeWebhook_def Inr ev)
  qed
  from swish stripe show ?thesis by blast
qed

theorem unknown_reference_changes_no_order_witness:
  "getPaymentSessionByExternalRef (db created_world) ''cs_unknown'' = None \<and>
   handleSwishCallback created_world example_outside ''cs_unknown'' ''PAID''
     = (\<lparr>success = False, cb_orderId = None\<rparr>, created_world) \<and>
   db (snd (handleStripeWebhook created_world stray_event)) = db created_world \<and>
   db (snd (handleStripeWebhook created_world
        (example_outside\<lparr>constructEvent := Some (''checkout.session.completed'', ''cs_unknown'')\<rparr>)))
     = db created_world \<and>
   \<not> success (fst (handleStripeWebhook created_world
        (example_outside\<lparr>constructEvent := Some (''checkout.session.completed'', ''cs_unknown'')\<rparr>)))"
proof -
  let ?x = "example_outside\<lparr>constructEvent := Some (''checkout.session.completed'', ''cs_unknown'')\<rparr>"
  have none: "getPaymentSessionByExternalRef (db created_world) ''cs_unknown'' = None" by code_simp
  have stray: "constructEvent stray_event = Some (''checkout.session.expired'', ''cs_unknown'')"
    by (simp add: stray_event_def)
  have completed: "constructEvent ?x = Some (''checkout.session.completed'', ''cs_unknown'')"
    by simp
  from unknown_reference_changes_no_order
         [OF none, of example_outside "''PAID''" "''checkout.session.completed''"]
  have swish: "handleSwishCallback created_world example_outside ''cs_unknown'' ''PAID''
     = (\<lparr>success = False, cb_orderId = None\<rparr>, created_world)"
    by simp
  from unknown_reference_changes_no_order
         [OF none, of stray_event "''PAID''" "''checkout.session.expired''"] stray
  have a: "db (snd (handleStripeWebhook created_world stray_event)) = db created_world"
    by simp
  from unknown_reference_changes_no_order
         [OF none, of ?x "''PAID''" "''checkout.session.completed''"] completed
  have b: "db (snd (handleStripeWebhook created_world ?x)) = db created_world"
    "\<not> success (fst (handleStripeWebhook created_world ?x))"
    by simp_all
  from none swish a b show ?thesis by simp
qed

section \<open>A second confirmation after ready\<close>

text \<open>
  C2. \<open>confirmOrder\<close> writes \<open>Confirmed\<close> whatever the status was. For the example
  order, already \<open>Ready\<close>, a repeated webhook of the completed checkout is accepted and
  takes the stored status back to \<open>Confirmed\<close>.
\<close>

theorem duplicate_confirm_moves_ready_back:
  "map_option o_status (getOrder (db ready_world) ''order-1'') = Some Ready \<and>
   map_option o_status (fst (confirmOrder ready_world example_outside ''order-1'')) = Some Confirmed \<and>
   success (fst (handleStripeWebhook ready_world example_outside)) \<and>
   map_option o_status
     (getOrder (db (snd (handleStripeWebhook ready_world example_outside))) ''order-1'')
     = Some Confirmed"
  by code_simp

section \<open>Order numbers\<close>

lemma fold_max_ge: "(a::int) \<le> fold max xs a \<and> (\<forall>v\<in>set xs. v \<le> fold max xs a)"
proof (induction xs arbitrary: a)
  case Nil
  then show ?case by simp
next
  case (Cons y ys)
  from Cons.IH [of "max y a"] show ?case by auto
qed


lemma sql_MAX_upper: "sql_MAX xs = Some m \<Longrightarrow> \<forall>v\<in>set xs. v \<le> m"
  using fold_max_ge by (cases xs) auto














lemma orders_saveReceipt [simp]: "orders (saveReceipt d r) = orders d"
  by (simp add: saveReceipt_def)

lemma orders_savePaymentSession [simp]: "orders (savePaymentSession d s) = orders d"
  by (simp add: savePaymentSession_def)

lemma orders_updatePaymentSession [simp]: "orders (snd (updatePaymentSession d sid f now)) = orders d"
  by (simp add: updatePaymentSession_def Let_def split: option.splits)

lemma orders_sendTelegramReceipt [simp]:
  "orders (db (snd (sendTelegramReceipt w x order chatId))) = orders (db w)"
  by (simp add: sendTelegramReceipt_def receipt_getBot_def emit_def Let_def)
















end
